theory Spec2Isabelle
  imports Complex_Main
begin

section \<open>The bq34z100-g1 flasher: a shallow embedding of main.py\<close>

text \<open>
  The script drives a fuel gauge over an i2c bus: it puts the device into ROM mode, mass
  erases the data flash, is meant to write an image and finally starts the gas gauge
  program. Everything it does to the outside is recorded, in order, in a trace of events;
  the Python lists it mutates live in a store; an exception is the left summand of the
  result. The script is Python 2 (the docstring of \<open>swapbytes\<close> uses the print
  statement), so \<open>/\<close> on two ints is floor division.
\<close>

subsection \<open>Values, events and the world\<close>

text \<open>A handle of \<open>smbus.SMBus(port)\<close>, identified by the port it was opened on.\<close>

datatype smbus = SMBus int

text \<open>
  The exceptions that can occur. \<open>NameError\<close> and \<open>UnboundLocalError\<close> carry the
  name that is not bound.
\<close>

datatype pyerror =
    TypeError
  | AttributeError
  | IndexError
  | IOError
  | NameError string
  | UnboundLocalError string
  | SystemExit

text \<open>
  The values that the script passes positionally to \<open>write_byte_data\<close>: ints and the
  bus handle.
\<close>

datatype pyval = PInt int | PObj smbus

text \<open>
  What the outside world sees: a line on standard output, a call of \<open>time.sleep\<close>
  with its argument in seconds, and the two bus transactions of the smbus module with the
  arguments in the order of the library call (device address, register, data).
\<close>

datatype event =
    Print string
  | Sleep real
  | Write_I2C_Block_Data smbus int int "int list"
  | Write_Byte_Data smbus int int int

text \<open>
  A Python list is an object: a variable holds a reference to it, and two variables may
  hold the same one. The store maps every reference to the list's current contents;
  \<open>fresh\<close> is the next reference to hand out. \<open>files\<close> maps the path of every
  regular file to its content, and \<open>can_open\<close> says which i2c ports can be opened.
\<close>

type_synonym ref = nat

record world =
  trace :: "event list"
  heap :: "ref \<Rightarrow> int list"
  fresh :: ref
  files :: "string \<rightharpoonup> string"
  can_open :: "int \<Rightarrow> bool"

type_synonym 'a py = "world \<Rightarrow> (pyerror + 'a) \<times> world"

definition py_return :: "'a \<Rightarrow> 'a py" where
  "py_return x s = (Inr x, s)"

definition py_raise :: "pyerror \<Rightarrow> 'a py" where
  "py_raise e s = (Inl e, s)"

definition py_bind :: "'a py \<Rightarrow> ('a \<Rightarrow> 'b py) \<Rightarrow> 'b py" where
  "py_bind m k s = (case m s of (Inl e, s') \<Rightarrow> (Inl e, s') | (Inr x, s') \<Rightarrow> k x s')"

definition py_then :: "'a py \<Rightarrow> 'b py \<Rightarrow> 'b py" where
  "py_then m k = py_bind m (\<lambda>_. k)"

text \<open>\<open>try: m except IOError: h\<close>; every other exception passes through.\<close>

definition try_except_IOError :: "'a py \<Rightarrow> 'a py \<Rightarrow> 'a py" where
  "try_except_IOError m h s =
     (case m s of (Inl IOError, s') \<Rightarrow> h s' | r \<Rightarrow> r)"

definition emit :: "event \<Rightarrow> unit py" where
  "emit e s = (Inr (), s\<lparr>trace := trace s @ [e]\<rparr>)"

fun is_bus_event :: "event \<Rightarrow> bool" where
  "is_bus_event (Write_I2C_Block_Data b d r vs) = True"
| "is_bus_event (Write_Byte_Data b d r v) = True"
| "is_bus_event (Print l) = False"
| "is_bus_event (Sleep t) = False"

definition bus_transactions :: "world \<Rightarrow> event list" where
  "bus_transactions s = filter is_bus_event (trace s)"

subsection \<open>The library calls the script makes\<close>

definition py_print :: "string \<Rightarrow> unit py" where
  "py_print line = emit (Print line)"

text \<open>\<open>time.sleep(sec)\<close>; Python 2 raises IOError (EINVAL) on a negative argument.\<close>

definition time_sleep :: "real \<Rightarrow> unit py" where
  "time_sleep sec = (if sec < 0 then py_raise IOError else emit (Sleep sec))"

definition sys_exit :: "'a py" where
  "sys_exit = py_raise SystemExit"

text \<open>\<open>smbus.SMBus(port)\<close> raises IOError when the port cannot be opened.\<close>

definition SMBus_open :: "int \<Rightarrow> smbus py" where
  "SMBus_open port s = (if can_open s port then (Inr (SMBus port), s) else (Inl IOError, s))"

text \<open>
  The two bus transactions. The transport is taken to accept every transaction; its
  failures are outside the script. The block write transmits the contents that the list
  has at the time of the call.
\<close>

definition write_i2c_block_data :: "smbus \<Rightarrow> int \<Rightarrow> int \<Rightarrow> ref \<Rightarrow> unit py" where
  "write_i2c_block_data bus device register vals s =
     emit (Write_I2C_Block_Data bus device register (heap s vals)) s"

fun smbus_write_byte_data :: "pyval \<Rightarrow> pyval \<Rightarrow> pyval \<Rightarrow> pyval \<Rightarrow> unit py" where
  "smbus_write_byte_data (PObj bus) (PInt device) (PInt register) (PInt val) =
     emit (Write_Byte_Data bus device register val)"
| "smbus_write_byte_data (PInt n) device register val = py_raise AttributeError"
| "smbus_write_byte_data bus device register val = py_raise TypeError"

text \<open>A list display \<open>[a, b, ...]\<close> allocates a new list object.\<close>

definition new_list :: "int list \<Rightarrow> ref py" where
  "new_list xs s = (Inr (fresh s), s\<lparr>heap := (heap s)(fresh s := xs), fresh := Suc (fresh s)\<rparr>)"

text \<open>\<open>xs[i]\<close> and \<open>xs[i] = v\<close> for an index \<open>i \<ge> 0\<close>; out of range raises.\<close>

definition getitem :: "ref \<Rightarrow> nat \<Rightarrow> int py" where
  "getitem r i s =
     (if i < length (heap s r) then (Inr (heap s r ! i), s) else (Inl IndexError, s))"

definition setitem :: "ref \<Rightarrow> nat \<Rightarrow> int \<Rightarrow> unit py" where
  "setitem r i v s =
     (if i < length (heap s r) then (Inr (), s\<lparr>heap := (heap s)(r := (heap s r)[i := v])\<rparr>)
      else (Inl IndexError, s))"

definition os_path_isfile :: "string \<Rightarrow> bool py" where
  "os_path_isfile path s = (Inr (files s path \<noteq> None), s)"

text \<open>
  \<open>str.rfind\<close> for a single character: the index of its last occurrence, or -1.
  The scan runs left to right and remembers the last hit.
\<close>

fun rfind_from :: "char \<Rightarrow> string \<Rightarrow> nat \<Rightarrow> int \<Rightarrow> int" where
  "rfind_from c [] i found = found"
| "rfind_from c (x # xs) i found = rfind_from c xs (Suc i) (if x = c then int i else found)"

definition rfind :: "char \<Rightarrow> string \<Rightarrow> int" where
  "rfind c p = rfind_from c p 0 (- 1)"

text \<open>
  \<open>os.path.splitext\<close> of posixpath: the extension starts at the last dot, provided
  that dot comes after the last slash and is preceded, in the last component, by a character
  that is not a dot.
\<close>

definition os_path_splitext :: "string \<Rightarrow> string \<times> string" where
  "os_path_splitext p =
     (let sepIndex = rfind CHR ''/'' p;
          dotIndex = rfind CHR ''.'' p
      in if dotIndex > sepIndex \<and>
            list_ex (\<lambda>ch. ch \<noteq> CHR ''.'')
              (take (nat dotIndex - nat (sepIndex + 1)) (drop (nat (sepIndex + 1)) p))
         then (take (nat dotIndex) p, drop (nat dotIndex) p)
         else (p, []))"

text \<open>\<open>str\<close> of an int: its decimal digits.\<close>

definition digit_char :: "nat \<Rightarrow> char" where
  "digit_char d = ''0123456789'' ! d"

function str_nat :: "nat \<Rightarrow> string" where
  "str_nat n = (if n < 10 then [digit_char n] else str_nat (n div 10) @ [digit_char (n mod 10)])"
  by pat_completeness auto
termination
  by (relation "measure id") auto

declare str_nat.simps [simp del]

definition str :: "int \<Rightarrow> string" where
  "str i = (if i < 0 then CHR ''-'' # str_nat (nat (- i)) else str_nat (nat i))"

subsection \<open>The script\<close>

definition FUEL_GAUGE_ADDRESS :: int where
  "FUEL_GAUGE_ADDRESS = 0x55"

definition ROM_ADDRESS :: int where
  "ROM_ADDRESS = 0x0B"

text \<open>
  \<open>bytes_in[0], bytes_in[1] = bytes_in[1], bytes_in[0]\<close>: the right-hand side is read
  first, left to right, then the two items are stored, left to right. The result is the
  reference it was given.
\<close>

definition swapbytes :: "ref \<Rightarrow> ref py" where
  "swapbytes bytes_in =
     py_bind (getitem bytes_in 1) (\<lambda>b1.
     py_bind (getitem bytes_in 0) (\<lambda>b0.
     py_then (setitem bytes_in 0 b1)
    (py_then (setitem bytes_in 1 b0)
    (py_return bytes_in))))"

definition wait :: "real \<Rightarrow> unit py" where
  "wait sec = time_sleep sec"

definition write_block_data :: "smbus \<Rightarrow> int \<Rightarrow> ref \<Rightarrow> int \<Rightarrow> unit py" where
  "write_block_data bus register vals device =
     py_bind (swapbytes vals) (\<lambda>swapped.
     write_i2c_block_data bus device register swapped)"

text \<open>
  \<open>def write_byte_data(bus, register, value, device)\<close>, on the list of the arguments of
  a call: Python binds them to the four parameters, and raises TypeError when their number
  is not four.
\<close>

fun write_byte_data :: "pyval list \<Rightarrow> unit py" where
  "write_byte_data [bus, register, val, device] = smbus_write_byte_data bus device register val"
| "write_byte_data args = py_raise TypeError"

definition execute_gas_gauge_program :: "unit py" where
  "execute_gas_gauge_program =
     py_then (write_byte_data [PInt 0x00, PInt 0x0F, PInt ROM_ADDRESS])
    (py_then (write_byte_data [PInt 0x64, PInt 0x0F, PInt ROM_ADDRESS])
    (write_byte_data [PInt 0x65, PInt 0x00, PInt ROM_ADDRESS]))"

text \<open>
  The three expressions of the checksum in \<open>mass_erase_data_flash\<close>: the sum (line 103)
  and the two values computed from it for the registers 0x64 and 0x65 (lines 106, 107).
\<close>

definition erase_checksum :: int where
  "erase_checksum = (0x0C + 0x83 + 0xDE) mod 0x010000"

definition checksum_low_byte :: "int \<Rightarrow> int" where
  "checksum_low_byte checksum = checksum mod 0x0100"

definition checksum_high_byte :: "int \<Rightarrow> int" where
  "checksum_high_byte checksum = checksum div 0x0100"

definition mass_erase_data_flash :: "smbus \<Rightarrow> int py" where
  "mass_erase_data_flash bus =
     py_then (py_print ''Starting mass erase data flash...'')
    (py_then (write_byte_data [PInt 0x00, PInt 0x0C, PInt ROM_ADDRESS])
    (py_then (write_byte_data [PInt 0x04, PInt 0x83, PInt ROM_ADDRESS])
    (py_then (write_byte_data [PInt 0x05, PInt 0xDE, PInt ROM_ADDRESS])
    (let checksum = erase_checksum in
     py_then (write_byte_data [PInt 0x64, PInt (checksum_low_byte checksum), PInt ROM_ADDRESS])
    (py_then (write_byte_data [PInt 0x65, PInt (checksum_high_byte checksum), PInt ROM_ADDRESS])
    (py_then (wait 0.5)
    (py_return checksum)))))))"

definition put_device_into_rom_mode :: "smbus \<Rightarrow> unit py" where
  "put_device_into_rom_mode bus =
     py_then (py_print ''Putting the fuel gauge into ROM mode...'')
    (py_bind (new_list [0xff, 0xff]) (\<lambda>output_values.
     let control_reg = 0x00 in
     py_then (write_block_data bus control_reg output_values FUEL_GAUGE_ADDRESS)
    (py_then (write_block_data bus control_reg output_values FUEL_GAUGE_ADDRESS)
    (py_then (wait 0.2)
    (py_bind (new_list [0x0f, 0x00]) (\<lambda>output_values_2.
     py_then (write_block_data bus control_reg output_values_2 FUEL_GAUGE_ADDRESS)
    (py_then (wait 0.2)
    (py_print ''Fuel gauge is in ROM mode.''))))))))"

definition get_image :: "string \<Rightarrow> unit py" where
  "get_image path_to_image = py_return ()"

text \<open>
  The body of \<open>write_image\<close> is one assignment, whose right-hand side calls
  \<open>get_image_data\<close>. The module binds no such name, so looking it up raises NameError.
\<close>

definition write_image :: "string \<Rightarrow> int \<Rightarrow> unit py" where
  "write_image path_to_image checksum =
     py_bind (py_raise (NameError ''get_image_data'') :: unit py) (\<lambda>image_data.
     py_return ())"

definition is_valid_image_file :: "string \<Rightarrow> bool py" where
  "is_valid_image_file file_in =
     py_bind (os_path_isfile file_in) (\<lambda>isfile.
     if \<not> isfile then py_return False
     else (case os_path_splitext file_in of (filename, file_extension) \<Rightarrow>
       if \<not> file_extension = ''.srec'' then py_return False
       else py_return True))"

definition flash_image :: "string \<Rightarrow> int \<Rightarrow> unit py" where
  "flash_image image_in port =
     py_then (py_print ''Starting flashing process...'')
    (py_bind (try_except_IOError (SMBus_open port)
       (let i2c_port = ''/dev/i2c-'' @ str port in
        py_then (py_print (''Could not open: '' @ i2c_port))
       (py_then (py_print ''Aborting.'')
        sys_exit))) (\<lambda>bus.
     py_then (put_device_into_rom_mode bus)
    (py_bind (mass_erase_data_flash bus) (\<lambda>checksum.
     py_then (write_image image_in checksum)
     execute_gas_gauge_program))))"

text \<open>
  \<open>main\<close> on the two arguments argparse hands over: the path after \<open>--flash\<close> and
  the int after \<open>--port\<close> (1 when absent). The local \<open>port\<close> is assigned only when the
  argument is truthy, that is not 0; reading it unassigned raises UnboundLocalError.
\<close>

definition main :: "string \<Rightarrow> int \<Rightarrow> unit py" where
  "main flash port_arg =
     (let image_file = flash;
          port = (if port_arg \<noteq> 0 then Some port_arg else None)
      in py_then (py_print (''Using: '' @ image_file @ '' to flash fuel gauge''))
        (py_bind (is_valid_image_file image_file) (\<lambda>valid.
         if valid then
           py_then (py_print (image_file @ '' is valid, starting flashing process.''))
             (case port of
                None \<Rightarrow> py_raise (UnboundLocalError ''port'')
              | Some p \<Rightarrow> flash_image image_file p)
         else
           py_then (py_print (image_file @ '' is not a valid image file. Aborting flashing process.''))
             sys_exit)))"

text \<open>
  A world to run the script in: nothing has happened yet, the store is empty, two files
  exist, one of them with the extension the script asks for, and only port 1 can be opened.
\<close>

definition world0 :: world where
  "world0 = \<lparr>trace = [], heap = (\<lambda>r. []), fresh = 0,
     files = [''fw.srec'' \<mapsto> ''not a record'', ''fw.hex'' \<mapsto> ''S9030000FC''],
     can_open = (\<lambda>port. port = 1)\<rparr>"


section \<open>Properties\<close>

subsection \<open>Running the statements\<close>

lemmas py_defs = py_return_def py_raise_def py_bind_def py_then_def emit_def py_print_def

lemma swapbytes_two:
  assumes "length (heap s r) = 2"
  shows "swapbytes r s = (Inr r, s\<lparr>heap := (heap s)(r := rev (heap s r))\<rparr>)"
proof -
  from assms obtain a b where ab: "heap s r = [a, b]"
    by (cases "heap s r"; cases "tl (heap s r)") auto
  show ?thesis
    by (simp add: swapbytes_def getitem_def setitem_def py_defs ab)
qed

lemma write_block_data_two:
  "length (heap s vals) = 2 \<Longrightarrow>
   write_block_data bus register vals device s =
     (Inr (), s\<lparr>heap := (heap s)(vals := rev (heap s vals)),
                trace := trace s @
                  [Write_I2C_Block_Data bus device register (rev (heap s vals))]\<rparr>)"
  by (simp add: write_block_data_def write_i2c_block_data_def py_bind_def emit_def swapbytes_two)

lemma wait_nonneg:
  "0 \<le> sec \<Longrightarrow> wait sec s = (Inr (), s\<lparr>trace := trace s @ [Sleep sec]\<rparr>)"
  by (simp add: wait_def time_sleep_def emit_def)

lemma put_device_into_rom_mode_result:
  "put_device_into_rom_mode bus s =
     (Inr (), s\<lparr>trace := trace s @
        [Print ''Putting the fuel gauge into ROM mode...'',
         Write_I2C_Block_Data bus FUEL_GAUGE_ADDRESS 0x00 [0xff, 0xff],
         Write_I2C_Block_Data bus FUEL_GAUGE_ADDRESS 0x00 [0xff, 0xff],
         Sleep 0.2,
         Write_I2C_Block_Data bus FUEL_GAUGE_ADDRESS 0x00 [0x00, 0x0f],
         Sleep 0.2,
         Print ''Fuel gauge is in ROM mode.''],
       heap := (heap s)(fresh s := [0xff, 0xff], Suc (fresh s) := [0x00, 0x0f]),
       fresh := Suc (Suc (fresh s))\<rparr>)"
  by (simp add: put_device_into_rom_mode_def new_list_def py_defs write_block_data_two
      wait_nonneg)

lemma mass_erase_data_flash_result:
  "mass_erase_data_flash bus s =
     (Inl TypeError, s\<lparr>trace := trace s @ [Print ''Starting mass erase data flash...'']\<rparr>)"
  by (simp add: mass_erase_data_flash_def py_defs)

lemma bus_transactions_append:
  "bus_transactions (s\<lparr>trace := trace s @ es\<rparr>) = bus_transactions s @ filter is_bus_event es"
  by (simp add: bus_transactions_def)

lemma world0_quiet: "trace world0 = []" "bus_transactions world0 = []"
  by (simp_all add: world0_def bus_transactions_def)

lemma splitext_fw_srec: "os_path_splitext ''fw.srec'' = (''fw'', ''.srec'')"
  by (simp add: os_path_splitext_def rfind_def Let_def)

lemma splitext_fw_hex: "os_path_splitext ''fw.hex'' = (''fw'', ''.hex'')"
  by (simp add: os_path_splitext_def rfind_def Let_def)

subsection \<open>The erase checksum\<close>

text \<open>
  C1, as the code has it: the sum of the three bytes 0x0C, 0x83 and 0xDE, taken modulo
  0x10000, is 0x016D; its low byte (the value mod 0x100) is 0x6D and its high byte (the
  value div 0x100) is 0x01. These are the two values that \<open>mass_erase_data_flash\<close>
  computes for the verification registers 0x64 and 0x65.
\<close>

theorem erase_checksum_bytes:
  "erase_checksum = 0x016D \<and>
   checksum_low_byte erase_checksum = 0x6D \<and>
   checksum_high_byte erase_checksum = 0x01"
  by (simp add: checksum_low_byte_def checksum_high_byte_def erase_checksum_def)

text \<open>C1 as stated, low byte 0x91 and high byte 0x00, does not hold of that sum.\<close>

theorem erase_checksum_bytes_not_0x91:
  "\<not> (checksum_low_byte erase_checksum = 0x91 \<and> checksum_high_byte erase_checksum = 0x00)"
  by (simp add: checksum_low_byte_def checksum_high_byte_def erase_checksum_def)

text \<open>
  C5, as the code has it: the low byte computed for the verification register 0x64 is the
  raw low byte of the sum, the sum mod 0x100. It is never 0xFF minus that byte: twice a
  byte is even, and 0xFF is odd.
\<close>

theorem checksum_low_byte_is_raw:
  "checksum_low_byte c = c mod 0x100 \<and> checksum_low_byte c \<noteq> 0xFF - c mod 0x100"
  unfolding checksum_low_byte_def by presburger

text \<open>
  C5 as stated fails at the erase checksum: the low byte is 0x6D, and 0xFF minus the sum
  mod 0x100 is 0x92.
\<close>

theorem checksum_low_byte_not_complement:
  "\<not> (checksum_low_byte erase_checksum = 0xFF - erase_checksum mod 0x100)"
  by (simp add: checksum_low_byte_def erase_checksum_def)

subsection \<open>The byte swap\<close>

text \<open>
  C8: \<open>swapbytes\<close> applied twice to a list of two elements gives the list back: the
  second call returns the same reference, and the store, with the list in it, is what it
  was before the first call.
\<close>

theorem swapbytes_involution:
  "length (heap s r) = 2 \<Longrightarrow> py_bind (swapbytes r) swapbytes s = (Inr r, s)"
  by (simp add: py_bind_def swapbytes_two)

theorem swapbytes_involution_witness:
  "length (heap (world0\<lparr>heap := (heap world0)(0 := [0x0f, 0x00])\<rparr>) 0) = 2 \<and>
   py_bind (swapbytes 0) swapbytes (world0\<lparr>heap := (heap world0)(0 := [0x0f, 0x00])\<rparr>) =
     (Inr 0, world0\<lparr>heap := (heap world0)(0 := [0x0f, 0x00])\<rparr>)"
proof -
  have h: "length (heap (world0\<lparr>heap := (heap world0)(0 := [0x0f, 0x00])\<rparr>) 0) = 2"
    by simp
  show ?thesis
    using h swapbytes_involution [OF h] by simp
qed

text \<open>
  C10: \<open>swapbytes\<close> swaps the two elements in place and returns the reference it was
  given, so \<open>write_block_data\<close> changes the list of its caller: when it returns, the
  caller's list holds its two elements in swapped order, and that swapped list is what was
  sent. In \<open>put_device_into_rom_mode\<close> the list created as [0x0f, 0x00] holds
  [0x00, 0x0f] at the end.
\<close>

theorem write_block_data_mutates_caller_list:
  "length (heap s vals) = 2 \<Longrightarrow>
   fst (swapbytes vals s) = Inr vals \<and>
   write_block_data bus register vals device s =
     (Inr (), s\<lparr>heap := (heap s)(vals := rev (heap s vals)),
                trace := trace s @
                  [Write_I2C_Block_Data bus device register (rev (heap s vals))]\<rparr>) \<and>
   heap (snd (write_block_data bus register vals device s)) vals = rev (heap s vals) \<and>
   heap (snd (put_device_into_rom_mode bus s)) (Suc (fresh s)) = rev [0x0f, 0x00]"
  by (simp add: write_block_data_two swapbytes_two put_device_into_rom_mode_result)

theorem write_block_data_mutates_caller_list_witness:
  "length (heap (world0\<lparr>heap := (heap world0)(0 := [0x0f, 0x00])\<rparr>) 0) = 2 \<and>
   fst (swapbytes 0 (world0\<lparr>heap := (heap world0)(0 := [0x0f, 0x00])\<rparr>)) = Inr 0 \<and>
   heap (snd (write_block_data (SMBus 1) 0x00 0 0x55
     (world0\<lparr>heap := (heap world0)(0 := [0x0f, 0x00])\<rparr>))) 0 = [0x00, 0x0f] \<and>
   trace (snd (write_block_data (SMBus 1) 0x00 0 0x55
     (world0\<lparr>heap := (heap world0)(0 := [0x0f, 0x00])\<rparr>))) =
     [Write_I2C_Block_Data (SMBus 1) 0x55 0x00 [0x00, 0x0f]]"
proof -
  have h: "length (heap (world0\<lparr>heap := (heap world0)(0 := [0x0f, 0x00])\<rparr>) 0) = 2"
    by simp
  show ?thesis
    using h write_block_data_mutates_caller_list [OF h, of "SMBus 1" "0x00" "0x55"]
    by (simp add: world0_quiet)
qed

subsection \<open>Entering ROM mode\<close>

text \<open>
  C3: putting the device into ROM mode returns normally and issues, at the normal bus
  address 0x55, exactly these transactions: two block writes of the pair {0xFF, 0xFF} to
  the control register 0x00, a delay of 0.2 seconds, one block write of the pair
  {0x0F, 0x00} to the control register, and a second delay of 0.2 seconds. Each pair goes
  out in the reverse of the order in which the source writes it, so the last pair is
  sent as 0x00, 0x0F.
\<close>

theorem put_device_into_rom_mode_transactions:
  "FUEL_GAUGE_ADDRESS = 0x55 \<and>
   fst (put_device_into_rom_mode bus s) = Inr () \<and>
   trace (snd (put_device_into_rom_mode bus s)) = trace s @
     [Print ''Putting the fuel gauge into ROM mode...'',
      Write_I2C_Block_Data bus FUEL_GAUGE_ADDRESS 0x00 (rev [0xff, 0xff]),
      Write_I2C_Block_Data bus FUEL_GAUGE_ADDRESS 0x00 (rev [0xff, 0xff]),
      Sleep 0.2,
      Write_I2C_Block_Data bus FUEL_GAUGE_ADDRESS 0x00 (rev [0x0f, 0x00]),
      Sleep 0.2,
      Print ''Fuel gauge is in ROM mode.'']"
  by (simp add: put_device_into_rom_mode_result) (simp add: FUEL_GAUGE_ADDRESS_def)

subsection \<open>The calls of \<open>write_byte_data\<close>\<close>

text \<open>
  C9: a call of \<open>write_byte_data\<close> with three arguments raises TypeError and writes
  nothing. All the calls in \<open>mass_erase_data_flash\<close> and in
  \<open>execute_gas_gauge_program\<close> have three arguments, so neither function completes,
  whatever the bus and the world: the erase raises at its first call, after the line it
  prints, with no bus transaction; the program start raises at its first call.
\<close>

theorem write_byte_data_three_arguments:
  "write_byte_data [register, val, device] s = (Inl TypeError, s) \<and>
   mass_erase_data_flash bus s =
     (Inl TypeError, s\<lparr>trace := trace s @ [Print ''Starting mass erase data flash...'']\<rparr>) \<and>
   bus_transactions (snd (mass_erase_data_flash bus s)) = bus_transactions s \<and>
   execute_gas_gauge_program s = (Inl TypeError, s)"
  by (simp add: mass_erase_data_flash_result bus_transactions_append
      execute_gas_gauge_program_def py_then_def py_bind_def py_raise_def)

text \<open>
  C4 at a concrete input: on the bus of port 1, in the world where nothing has happened
  yet, the mass erase raises TypeError after printing its first line. No control
  command, no register pair, no checksum pair is written, and no delay is waited.
\<close>

theorem mass_erase_data_flash_raises:
  "mass_erase_data_flash (SMBus 1) world0 =
     (Inl TypeError, world0\<lparr>trace := [Print ''Starting mass erase data flash...'']\<rparr>)"
  by (simp add: mass_erase_data_flash_result) (simp add: world0_def)

subsection \<open>The write phase\<close>

text \<open>
  C2 at a concrete input: \<open>write_image\<close> on the image fw.srec and the erase checksum
  raises NameError for \<open>get_image_data\<close> and leaves the world as it was: no record is
  read, no block is written, no checksum pair is written.
\<close>

theorem write_image_raises:
  "write_image ''fw.srec'' erase_checksum world0 = (Inl (NameError ''get_image_data''), world0)"
  by (simp add: write_image_def py_defs)

subsection \<open>Rejecting before the bus is touched\<close>

text \<open>
  C7: when the i2c port cannot be opened, \<open>flash_image\<close> prints that it could not
  open the device file, prints that it aborts, and exits through \<open>sys.exit()\<close>. It
  does not go on to the ROM mode entry: the run has issued no bus transaction.
\<close>

theorem flash_image_port_not_opened:
  "\<not> can_open s port \<Longrightarrow>
   flash_image image_in port s =
     (Inl SystemExit, s\<lparr>trace := trace s @
        [Print ''Starting flashing process...'',
         Print (''Could not open: /dev/i2c-'' @ str port),
         Print ''Aborting.'']\<rparr>) \<and>
   bus_transactions (snd (flash_image image_in port s)) = bus_transactions s"
  by (simp add: flash_image_def try_except_IOError_def SMBus_open_def sys_exit_def py_defs
      bus_transactions_def)

theorem flash_image_port_not_opened_witness:
  "\<not> can_open world0 2 \<and>
   flash_image ''fw.srec'' 2 world0 =
     (Inl SystemExit, world0\<lparr>trace :=
        [Print ''Starting flashing process...'',
         Print ''Could not open: /dev/i2c-2'',
         Print ''Aborting.'']\<rparr>) \<and>
   bus_transactions (snd (flash_image ''fw.srec'' 2 world0)) = []"
proof -
  have h: "\<not> can_open world0 2"
    by (simp add: world0_def)
  have s2: "str 2 = ''2''"
    by (simp add: str_def str_nat.simps digit_char_def)
  show ?thesis
    using h flash_image_port_not_opened [OF h, of "''fw.srec''"]
    by (simp add: s2 world0_quiet bus_transactions_def)
qed

text \<open>
  C6, as the code has it: a path that is not an existing regular file, or whose extension
  is not .srec, is rejected by \<open>main\<close> before any bus transaction: the run prints two
  lines and exits. The content of the file is not looked at before the bus is used.
\<close>

theorem main_rejects_before_bus:
  "files s p = None \<or> snd (os_path_splitext p) \<noteq> ''.srec'' \<Longrightarrow>
   main p port s =
     (Inl SystemExit, s\<lparr>trace := trace s @
        [Print (''Using: '' @ p @ '' to flash fuel gauge''),
         Print (p @ '' is not a valid image file. Aborting flashing process.'')]\<rparr>) \<and>
   bus_transactions (snd (main p port s)) = bus_transactions s"
  by (auto simp add: main_def is_valid_image_file_def os_path_isfile_def sys_exit_def py_defs
      bus_transactions_def split: prod.splits)

theorem main_rejects_before_bus_witness:
  "(files world0 ''fw.hex'' = None \<or> snd (os_path_splitext ''fw.hex'') \<noteq> ''.srec'') \<and>
   main ''fw.hex'' 1 world0 =
     (Inl SystemExit, world0\<lparr>trace :=
        [Print ''Using: fw.hex to flash fuel gauge'',
         Print ''fw.hex is not a valid image file. Aborting flashing process.'']\<rparr>) \<and>
   bus_transactions (snd (main ''fw.hex'' 1 world0)) = []"
proof -
  have h: "files world0 ''fw.hex'' = None \<or> snd (os_path_splitext ''fw.hex'') \<noteq> ''.srec''"
    by (simp add: splitext_fw_hex)
  show ?thesis
    using h main_rejects_before_bus [OF h, of 1]
    by (simp add: world0_quiet bus_transactions_def)
qed

text \<open>
  C6 as stated fails for a file with the right extension and a content that is no record
  at all: fw.srec holds the text "not a record", and the run on port 1 issues the three
  block writes of the ROM mode entry.
\<close>

theorem main_writes_before_content_is_read:
  "files world0 ''fw.srec'' = Some ''not a record'' \<and>
   bus_transactions (snd (main ''fw.srec'' 1 world0)) =
     [Write_I2C_Block_Data (SMBus 1) 0x55 0x00 [0xff, 0xff],
      Write_I2C_Block_Data (SMBus 1) 0x55 0x00 [0xff, 0xff],
      Write_I2C_Block_Data (SMBus 1) 0x55 0x00 [0x00, 0x0f]]"
proof -
  have f: "files world0 ''fw.srec'' = Some ''not a record''"
    by (simp add: world0_def)
  have v: "is_valid_image_file ''fw.srec'' s = (Inr True, s)"
    if "files s ''fw.srec'' \<noteq> None" for s
    using that by (simp add: is_valid_image_file_def os_path_isfile_def splitext_fw_srec py_defs)
  have o: "can_open world0 1"
    by (simp add: world0_def)
  have "bus_transactions (snd (main ''fw.srec'' 1 world0)) =
     bus_transactions world0 @
     [Write_I2C_Block_Data (SMBus 1) 0x55 0x00 [0xff, 0xff],
      Write_I2C_Block_Data (SMBus 1) 0x55 0x00 [0xff, 0xff],
      Write_I2C_Block_Data (SMBus 1) 0x55 0x00 [0x00, 0x0f]]"
    using f o
    by (simp add: main_def flash_image_def v try_except_IOError_def SMBus_open_def
        put_device_into_rom_mode_result mass_erase_data_flash_result py_defs
        bus_transactions_def FUEL_GAUGE_ADDRESS_def Let_def)
  then show ?thesis
    using f by (simp add: world0_quiet)
qed

end
